theory Spec2Isabelle
  imports Main "HOL-Library.AList"
begin

section \<open>The WhatsApp captor (wa-captor/index.js)\<close>

text \<open>
  The program registers three asynchronous handlers on a chat-session client (\<open>qr\<close>,
  \<open>ready\<close>, \<open>message\<close>). Each handler builds a JSON object, serialises it, signs it when
  a secret is configured and posts it to an HTTP endpoint. The embedding below follows
  index.js line by line: JavaScript values become a small datatype, the objects built by the
  handlers become association lists in insertion order, and every operation that talks to
  the outside (chat lookup, contact lookup, media download, HTTP POST, console output) is
  recorded in a trace, with its answer taken from a record of responses.
\<close>

subsection \<open>JavaScript values\<close>

text \<open>
  Strings are \<open>string\<close>; a property that may be \<open>undefined\<close> or \<open>null\<close> on the incoming
  objects is a \<open>string option\<close> (\<open>None\<close> for both). The only character the program
  inspects is the ASCII \<open>@\<close>, so the encoding of the other characters does not matter.
  \<open>jv\<close> are the values the handlers store in the objects they serialise.
\<close>

datatype jv = JNull | JStr string | JBool bool | JNum int

type_synonym obj = "(string \<times> jv) list"

text \<open>Truthiness of an optional string: \<open>undefined\<close>, \<open>null\<close> and \<open>""\<close> are falsy.\<close>

definition truthy :: "string option \<Rightarrow> bool" where
  "truthy a = (case a of None \<Rightarrow> False | Some s \<Rightarrow> s \<noteq> [])"

text \<open>\<open>a || b\<close> on optional strings.\<close>

definition js_or :: "string option \<Rightarrow> string option \<Rightarrow> string option" where
  "js_or a b = (if truthy a then a else b)"

text \<open>\<open>a || s\<close> where \<open>s\<close> is a string literal: the result is a string.\<close>

definition or_str :: "string option \<Rightarrow> string \<Rightarrow> string" where
  "or_str a s = (case a of None \<Rightarrow> s | Some x \<Rightarrow> if x \<noteq> [] then x else s)"

text \<open>\<open>a || null\<close>.\<close>

definition or_null :: "string option \<Rightarrow> jv" where
  "or_null a = (case a of None \<Rightarrow> JNull | Some x \<Rightarrow> if x \<noteq> [] then JStr x else JNull)"

text \<open>
  \<open>s.split(c)\<close> for a one-character separator: the list of the pieces between the
  separators, never empty.
\<close>

fun split :: "char \<Rightarrow> string \<Rightarrow> string list" where
  "split c [] = [[]]"
| "split c (x # xs) =
     (if x = c then [] # split c xs
      else (case split c xs of [] \<Rightarrow> [[x]] | p # ps \<Rightarrow> (x # p) # ps))"

text \<open>\<open>xs[0]\<close> on an array of strings; \<open>undefined\<close> on the empty array.\<close>

definition index0 :: "string list \<Rightarrow> string option" where
  "index0 xs = (case xs of [] \<Rightarrow> None | x # _ \<Rightarrow> Some x)"

subsection \<open>Configuration (lines 6-10) and library functions\<close>

text \<open>
  \<open>IA_ENDPOINT\<close>, \<open>QR_ENDPOINT\<close> and \<open>GROUP_WHITELIST\<close> are the module constants as
  resolved at start-up; \<open>env_HMAC_SECRET\<close> is \<open>process.env.HMAC_SECRET\<close>, which may be
  unset.
\<close>

record config =
  IA_ENDPOINT :: string
  QR_ENDPOINT :: string
  GROUP_WHITELIST :: "string list"
  env_HMAC_SECRET :: "string option"

text \<open>Line 10: \<open>process.env.HMAC_SECRET || ''\<close>.\<close>

definition HMAC_SECRET :: "config \<Rightarrow> string" where
  "HMAC_SECRET cfg = or_str (env_HMAC_SECRET cfg) []"

text \<open>
  \<open>JSON.stringify\<close> and \<open>crypto.createHmac(alg, key).update(data).digest('hex')\<close>
  belong to the runtime; they are parameters of the model.
\<close>

record lib =
  JSON_stringify :: "obj \<Rightarrow> string"
  createHmac_hex :: "string \<Rightarrow> string \<Rightarrow> string \<Rightarrow> string"

subsection \<open>The objects supplied by the session client\<close>

record msg =
  msg_from :: string
  msg_author :: "string option"
  msg_body :: "string option"
  msg_timestamp :: int
  msg_hasMedia :: bool

record chat =
  chat_isGroup :: bool
  chat_name :: string

record contact =
  contact_pushname :: "string option"
  contact_name :: "string option"
  contact_shortName :: "string option"
  contact_verifiedName :: "string option"

record media =
  media_mimetype :: string
  media_filename :: "string option"
  media_data :: string

subsection \<open>Effects: traces and exceptions\<close>

datatype err = Rejected string | TypeError

datatype 'a outcome = Returns 'a | Throws err

type_synonym headers = "(string \<times> string) list"

datatype action =
    ConsoleLog string
  | ConsoleError string err
  | QrcodeGenerate string
  | GetChat
  | GetContactById string
  | GetContact
  | DownloadMedia
  | Fetch string headers string

text \<open>
  A computation yields the actions it performed, in order, and either a value or the
  exception that ended it.
\<close>

type_synonym 'a io = "action list \<times> 'a outcome"

definition io_return :: "'a \<Rightarrow> 'a io" where
  "io_return x = ([], Returns x)"

definition io_bind :: "'a io \<Rightarrow> ('a \<Rightarrow> 'b io) \<Rightarrow> 'b io" where
  "io_bind m f =
     (case m of
        (t, Throws e) \<Rightarrow> (t, Throws e)
      | (t, Returns x) \<Rightarrow> (case f x of (t', r) \<Rightarrow> (t @ t', r)))"

text \<open>\<open>await\<close> of an external call: the action is recorded, the promise's outcome follows.\<close>

definition io_await :: "action \<Rightarrow> 'a outcome \<Rightarrow> 'a io" where
  "io_await a r = ([a], r)"

text \<open>\<open>try { m } catch (e) { h e }\<close>.\<close>

definition io_try :: "'a io \<Rightarrow> (err \<Rightarrow> 'a io) \<Rightarrow> 'a io" where
  "io_try m h =
     (case m of
        (t, Throws e) \<Rightarrow> (case h e of (t', r) \<Rightarrow> (t @ t', r))
      | (t, Returns x) \<Rightarrow> (t, Returns x))"

text \<open>
  The answers of the outside world while one event is handled. \<open>getContactById\<close>,
  \<open>getContact\<close> and \<open>downloadMedia\<close> may resolve to \<open>undefined\<close>/\<open>null\<close> (\<open>None\<close>);
  \<open>fetch\<close> resolves to the response's status code, whatever it is, and rejects on a
  network failure; \<open>qrcode.generate\<close> draws the code on the terminal and throws on a
  code it cannot encode (one beyond the capacity of a QR code).
\<close>

record world =
  getChat :: "chat outcome"
  getContactById :: "string \<Rightarrow> contact option outcome"
  getContact :: "contact option outcome"
  downloadMedia :: "media option outcome"
  fetch :: "string \<Rightarrow> headers \<Rightarrow> string \<Rightarrow> nat outcome"
  qrcode_generate :: "string \<Rightarrow> unit outcome"

subsection \<open>Signing and delivery (lines 25-31, 41-47, 91-102)\<close>

text \<open>
  The three handlers carry the same block: the headers start as
  \<open>{ 'Content-Type': 'application/json' }\<close> and gain \<open>x-signature\<close> when
  \<open>HMAC_SECRET\<close> is truthy.
\<close>

definition sign_headers :: "lib \<Rightarrow> config \<Rightarrow> string \<Rightarrow> headers" where
  "sign_headers L cfg body =
     (let headers = [(''Content-Type'', ''application/json'')] in
      if HMAC_SECRET cfg \<noteq> [] then
        (let signature = createHmac_hex L ''sha256'' (HMAC_SECRET cfg) body
         in AList.update ''x-signature'' signature headers)
      else headers)"

definition deliver :: "lib \<Rightarrow> config \<Rightarrow> world \<Rightarrow> string \<Rightarrow> obj \<Rightarrow> unit io" where
  "deliver L cfg w url payload =
     (let body = JSON_stringify L payload;
          headers = sign_headers L cfg body
      in io_bind (io_await (Fetch url headers body) (fetch w url headers body))
           (\<lambda>_. io_return ()))"

subsection \<open>The \<open>qr\<close> and \<open>ready\<close> handlers (lines 21-49)\<close>

text \<open>
  In the \<open>qr\<close> handler \<open>console.log\<close> and \<open>qrcode.generate\<close> stand before the
  \<open>try\<close> (lines 22-23): when \<open>qrcode.generate\<close> throws, nothing catches it and the
  handler's promise rejects. \<open>console.log\<close> returns normally.
\<close>

definition on_qr :: "lib \<Rightarrow> config \<Rightarrow> world \<Rightarrow> string \<Rightarrow> unit io" where
  "on_qr L cfg w qr =
     io_bind (io_await (ConsoleLog (''Escane'' @ [CHR 0xC3, CHR 0xA1] @ '' este QR:'')) (Returns ()))
       (\<lambda>_. io_bind (io_await (QrcodeGenerate qr) (qrcode_generate w qr))
       (\<lambda>_. io_try (deliver L cfg w (QR_ENDPOINT cfg) [(''qr'', JStr qr)])
               (\<lambda>e. io_await (ConsoleError ''No se pudo publicar el QR'' e) (Returns ()))))"

definition on_ready :: "lib \<Rightarrow> config \<Rightarrow> world \<Rightarrow> unit io" where
  "on_ready L cfg w =
     io_bind (io_await (ConsoleLog (''WA listo '' @ [CHR 0xE2, CHR 0x9C, CHR 0x85])) (Returns ()))
       (\<lambda>_. io_try (deliver L cfg w (QR_ENDPOINT cfg) [(''qr'', JNull)])
               (\<lambda>e. io_return ()))"

subsection \<open>The \<open>message\<close> handler (lines 51-106)\<close>

text \<open>Line 55.\<close>

definition groupName :: "chat \<Rightarrow> jv" where
  "groupName c = (if chat_isGroup c then JStr (chat_name c) else JNull)"

text \<open>
  \<open>GROUP_WHITELIST.includes(v)\<close>: the whitelist holds strings, and \<open>includes\<close> compares
  with strict equality, so \<open>null\<close> is never found.
\<close>

definition whitelist_includes :: "string list \<Rightarrow> jv \<Rightarrow> bool" where
  "whitelist_includes wl v = (case v of JStr s \<Rightarrow> s \<in> set wl | _ \<Rightarrow> False)"

text \<open>Line 57: the condition of the early \<open>return\<close>, negated.\<close>

definition shouldForward :: "config \<Rightarrow> chat \<Rightarrow> bool" where
  "shouldForward cfg c =
     (\<not> (chat_isGroup c \<and> length (GROUP_WHITELIST cfg) \<noteq> 0
         \<and> \<not> whitelist_includes (GROUP_WHITELIST cfg) (groupName c)))"

text \<open>Line 65.\<close>

definition senderName_of :: "contact option \<Rightarrow> jv" where
  "senderName_of contact =
     (case contact of
        None \<Rightarrow> JNull
      | Some c \<Rightarrow>
          or_null (js_or (js_or (js_or (contact_pushname c) (contact_name c))
                                (contact_shortName c))
                         (contact_verifiedName c)))"

text \<open>
  Lines 60-66. The contact is looked up by \<open>msg.author\<close> when that is truthy, through
  the message otherwise; the lookup has its own \<open>try\<close> with an empty \<open>catch\<close>, and
  \<open>senderName\<close> keeps its initial \<open>null\<close> when the lookup throws.
\<close>

definition contact_lookup :: "world \<Rightarrow> msg \<Rightarrow> contact option io" where
  "contact_lookup w m =
     (case msg_author m of
        None \<Rightarrow> io_await GetContact (getContact w)
      | Some a \<Rightarrow>
          if a \<noteq> [] then io_await (GetContactById a) (getContactById w a)
          else io_await GetContact (getContact w))"

definition lookup_senderName :: "world \<Rightarrow> msg \<Rightarrow> jv io" where
  "lookup_senderName w m =
     io_try
       (io_bind (contact_lookup w m) (\<lambda>contact. io_return (senderName_of contact)))
       (\<lambda>e. io_return JNull)"

text \<open>Line 67.\<close>

definition senderNumber :: "msg \<Rightarrow> jv" where
  "senderNumber m =
     or_null (index0 (split (CHR ''@'')
                (or_str (js_or (msg_author m) (Some (msg_from m))) [])))"

text \<open>Line 68.\<close>

definition groupId :: "msg \<Rightarrow> chat \<Rightarrow> jv" where
  "groupId m c = (if chat_isGroup c then JStr (msg_from m) else JNull)"

text \<open>Lines 70-81: the object literal, in the order of its keys.\<close>

definition payload :: "msg \<Rightarrow> chat \<Rightarrow> jv \<Rightarrow> obj" where
  "payload m c senderName =
     [(''from_'', JStr (msg_from m)),
      (''author'', or_null (msg_author m)),
      (''timestamp'', JNum (msg_timestamp m)),
      (''isGroup'', JBool (chat_isGroup c)),
      (''groupName'', groupName c),
      (''groupId'', groupId m c),
      (''senderName'', senderName),
      (''senderNumber'', senderNumber m),
      (''type'', JStr ''text''),
      (''text'', or_null (msg_body m))]"

text \<open>
  Lines 85-88: assigning a property replaces its value where the key exists and appends
  the key otherwise. Reading a property of \<open>undefined\<close> throws a TypeError (after
  \<open>type\<close> has been set; the object is lost with the exception).
\<close>

definition with_media :: "media \<Rightarrow> obj \<Rightarrow> obj" where
  "with_media md p =
     AList.update ''data_base64'' (JStr (media_data md))
       (AList.update ''filename'' (JStr (or_str (media_filename md) ''file.bin''))
         (AList.update ''mimetype'' (JStr (media_mimetype md))
           (AList.update ''type'' (JStr ''media'') p)))"

definition attach_media :: "media option \<Rightarrow> obj \<Rightarrow> obj io" where
  "attach_media media p =
     (case media of
        None \<Rightarrow> ([], Throws TypeError)
      | Some md \<Rightarrow> io_return (with_media md p))"

text \<open>Lines 59-89: everything between the filter and the serialisation.\<close>

definition envelope :: "world \<Rightarrow> msg \<Rightarrow> chat \<Rightarrow> obj io" where
  "envelope w m c =
     io_bind (lookup_senderName w m)
       (\<lambda>senderName.
          let p = payload m c senderName in
          if msg_hasMedia m then
            io_bind (io_await DownloadMedia (downloadMedia w)) (\<lambda>media. attach_media media p)
          else io_return p)"

text \<open>Lines 53-102: the body of the outer \<open>try\<close>.\<close>

definition message_try :: "lib \<Rightarrow> config \<Rightarrow> world \<Rightarrow> msg \<Rightarrow> unit io" where
  "message_try L cfg w m =
     io_bind (io_await GetChat (getChat w))
       (\<lambda>c. if \<not> shouldForward cfg c then io_return ()
            else io_bind (envelope w m c) (deliver L cfg w (IA_ENDPOINT cfg)))"

definition on_message :: "lib \<Rightarrow> config \<Rightarrow> world \<Rightarrow> msg \<Rightarrow> unit io" where
  "on_message L cfg w m =
     io_try (message_try L cfg w m)
       (\<lambda>e. io_await (ConsoleError ''Error'' e) (Returns ()))"

subsection \<open>The session: events handled one after the other\<close>

datatype event = QrIssued string | SessionReady | MessageReceived msg

definition emit :: "lib \<Rightarrow> config \<Rightarrow> world \<Rightarrow> event \<Rightarrow> unit io" where
  "emit L cfg w ev =
     (case ev of
        QrIssued qr \<Rightarrow> on_qr L cfg w qr
      | SessionReady \<Rightarrow> on_ready L cfg w
      | MessageReceived m \<Rightarrow> on_message L cfg w m)"

text \<open>
  Each event comes with the answers the world gives while it is handled, and the
  handlers run one after the other (the interleaving of handlers suspended at an
  \<open>await\<close> is not part of the model). A handler whose promise rejects is an unhandled
  rejection, which ends the process: the events after it are not handled.
\<close>

fun run :: "lib \<Rightarrow> config \<Rightarrow> (event \<times> world) list \<Rightarrow> unit io" where
  "run L cfg [] = io_return ()"
| "run L cfg ((ev, w) # rest) = io_bind (emit L cfg w ev) (\<lambda>_. run L cfg rest)"

subsection \<open>Reading an envelope\<close>

text \<open>
  A field is present in an object when its key is there with a value other than
  \<open>null\<close>; the handlers write \<open>null\<close> for what the envelope does not have.
\<close>

definition field :: "obj \<Rightarrow> string \<Rightarrow> jv option" where
  "field p k = (case map_of p k of None \<Rightarrow> None | Some JNull \<Rightarrow> None | Some v \<Rightarrow> Some v)"

definition present :: "obj \<Rightarrow> string \<Rightarrow> bool" where
  "present p k = (field p k \<noteq> None)"

definition is_Fetch :: "action \<Rightarrow> bool" where
  "is_Fetch a = (case a of Fetch _ _ _ \<Rightarrow> True | _ \<Rightarrow> False)"

definition is_ConsoleError :: "action \<Rightarrow> bool" where
  "is_ConsoleError a = (case a of ConsoleError _ _ \<Rightarrow> True | _ \<Rightarrow> False)"

definition is_lookup :: "action \<Rightarrow> bool" where
  "is_lookup a = (case a of GetContact \<Rightarrow> True | GetContactById _ \<Rightarrow> True | _ \<Rightarrow> False)"

text \<open>The substring of \<open>s\<close> before the first \<open>@\<close> (all of \<open>s\<close> when it has none).\<close>

definition before_at :: "string \<Rightarrow> string" where
  "before_at s = takeWhile (\<lambda>x. x \<noteq> CHR ''@'') s"

text \<open>The field \<open>senderNumber\<close> is derived from: \<open>author\<close> when present, else \<open>from_\<close>.\<close>

definition source_field :: "obj \<Rightarrow> string" where
  "source_field p =
     (case field p ''author'' of
        Some (JStr a) \<Rightarrow> a
      | _ \<Rightarrow> (case field p ''from_'' of Some (JStr f) \<Rightarrow> f | _ \<Rightarrow> []))"

definition media_fields :: "obj \<Rightarrow> bool" where
  "media_fields p = (present p ''mimetype'' \<and> present p ''filename'' \<and> present p ''data_base64'')"

definition no_media_fields :: "obj \<Rightarrow> bool" where
  "no_media_fields p =
     (\<not> present p ''mimetype'' \<and> \<not> present p ''filename'' \<and> \<not> present p ''data_base64'')"

text \<open>
  The invariant of the data model as the specification words it: exactly one of the
  two groups (\<open>text\<close>; the three media fields) is present, keyed by \<open>type\<close>.
\<close>

definition spec_exactly_one_group :: "obj \<Rightarrow> bool" where
  "spec_exactly_one_group p =
     (if map_of p ''type'' = Some (JStr ''text'') then present p ''text'' \<and> no_media_fields p
      else if map_of p ''type'' = Some (JStr ''media'') then media_fields p \<and> \<not> present p ''text''
      else False)"

subsection \<open>Example inputs\<close>

text \<open>
  Stand-ins for the two runtime functions, so that the handlers can be evaluated on
  examples: the serialiser lists the keys, the MAC concatenates its arguments.
\<close>

definition toy_lib :: lib where
  "toy_lib = \<lparr>JSON_stringify = (\<lambda>p. concat (map fst p)),
              createHmac_hex = (\<lambda>alg key body. alg @ '':'' @ key @ '':'' @ body)\<rparr>"

definition cfg_open :: config where
  "cfg_open = \<lparr>IA_ENDPOINT = ''http://localhost:8000/ingesta'',
               QR_ENDPOINT = ''http://localhost:8000/qr'',
               GROUP_WHITELIST = [], env_HMAC_SECRET = None\<rparr>"

definition cfg_trabajo :: config where
  "cfg_trabajo = \<lparr>IA_ENDPOINT = ''http://localhost:8000/ingesta'',
                  QR_ENDPOINT = ''http://localhost:8000/qr'',
                  GROUP_WHITELIST = [''Trabajo''], env_HMAC_SECRET = Some ''s3cret''\<rparr>"

definition m_hola :: msg where
  "m_hola = \<lparr>msg_from = ''5491155550000@c.us'', msg_author = None, msg_body = Some ''hola'',
             msg_timestamp = 1700000000, msg_hasMedia = False\<rparr>"

definition m_group :: msg where
  "m_group = \<lparr>msg_from = ''120363000000000000@g.us'', msg_author = Some ''5491155550000@c.us'',
              msg_body = Some ''hola'', msg_timestamp = 1700000000, msg_hasMedia = False\<rparr>"

definition m_photo :: msg where
  "m_photo = \<lparr>msg_from = ''5491155550000@c.us'', msg_author = None, msg_body = Some ''hola'',
              msg_timestamp = 1700000000, msg_hasMedia = True\<rparr>"

definition m_empty :: msg where
  "m_empty = \<lparr>msg_from = ''5491155550000@c.us'', msg_author = None, msg_body = Some [],
              msg_timestamp = 1700000000, msg_hasMedia = False\<rparr>"

definition m_at :: msg where
  "m_at = \<lparr>msg_from = ''@c.us'', msg_author = None, msg_body = Some ''hola'',
           msg_timestamp = 1700000000, msg_hasMedia = False\<rparr>"

definition c_private :: chat where
  "c_private = \<lparr>chat_isGroup = False, chat_name = ''Ana''\<rparr>"

definition c_familia :: chat where
  "c_familia = \<lparr>chat_isGroup = True, chat_name = ''Familia''\<rparr>"

definition c_trabajo :: chat where
  "c_trabajo = \<lparr>chat_isGroup = True, chat_name = ''Trabajo''\<rparr>"

definition ct_ana :: contact where
  "ct_ana = \<lparr>contact_pushname = Some ''Ana'', contact_name = None,
             contact_shortName = None, contact_verifiedName = None\<rparr>"

definition md_jpeg :: media where
  "md_jpeg = \<lparr>media_mimetype = ''image/jpeg'', media_filename = None, media_data = ''/9j/4AAQ''\<rparr>"

text \<open>A world where every call succeeds, and worlds where one of them fails.\<close>

definition w_ok :: world where
  "w_ok = \<lparr>getChat = Returns c_private,
           getContactById = (\<lambda>_. Returns (Some ct_ana)),
           getContact = Returns (Some ct_ana),
           downloadMedia = Returns (Some md_jpeg),
           fetch = (\<lambda>_ _ _. Returns 200),
           qrcode_generate = (\<lambda>_. Returns ())\<rparr>"

definition w_familia :: world where
  "w_familia = w_ok\<lparr>getChat := Returns c_familia\<rparr>"

definition w_offline :: world where
  "w_offline = w_ok\<lparr>fetch := (\<lambda>_ _ _. Throws (Rejected ''ECONNREFUSED''))\<rparr>"

definition w_500 :: world where
  "w_500 = w_ok\<lparr>fetch := (\<lambda>_ _ _. Returns 500)\<rparr>"

definition w_nomedia :: world where
  "w_nomedia = w_ok\<lparr>downloadMedia := Throws (Rejected ''download failed'')\<rparr>"

definition w_nocontact :: world where
  "w_nocontact = w_ok\<lparr>getContactById := (\<lambda>_. Throws (Rejected ''lookup failed'')),
                      getContact := Throws (Rejected ''lookup failed'')\<rparr>"

definition w_nocontact_nomedia :: world where
  "w_nocontact_nomedia = w_nocontact\<lparr>downloadMedia := Throws (Rejected ''download failed'')\<rparr>"

section \<open>Properties\<close>

subsection \<open>Auxiliary facts about the model\<close>

lemmas io_defs = io_bind_def io_try_def io_await_def io_return_def

lemma split_not_Nil: "split c s \<noteq> []"
  by (induction s) (auto split: list.splits)

lemma index0_split: "index0 (split c s) = Some (takeWhile (\<lambda>x. x \<noteq> c) s)"
  by (induction s) (auto simp: index0_def split: list.splits)

lemma deliver_eq:
  "deliver L cfg w url p =
     ([Fetch url (sign_headers L cfg (JSON_stringify L p)) (JSON_stringify L p)],
      case fetch w url (sign_headers L cfg (JSON_stringify L p)) (JSON_stringify L p) of
        Returns _ \<Rightarrow> Returns () | Throws e \<Rightarrow> Throws e)"
  by (simp add: deliver_def io_defs Let_def split: outcome.splits)

lemma contact_lookup_trace:
  "fst (contact_lookup w m) = [GetContact] \<or> (\<exists>a. fst (contact_lookup w m) = [GetContactById a])"
  by (simp add: contact_lookup_def io_defs split: option.splits)

lemma lookup_senderName_eq:
  "lookup_senderName w m =
     (fst (contact_lookup w m),
      Returns (case snd (contact_lookup w m) of
                 Returns ct \<Rightarrow> senderName_of ct | Throws e \<Rightarrow> JNull))"
  by (cases "contact_lookup w m") (simp add: lookup_senderName_def io_defs split: outcome.splits)

lemma envelope_eq:
  "envelope w m c =
     (case snd (lookup_senderName w m) of
        Returns sn \<Rightarrow>
          if msg_hasMedia m then
            (fst (contact_lookup w m) @ [DownloadMedia],
             case downloadMedia w of
               Returns (Some md) \<Rightarrow> Returns (with_media md (payload m c sn))
             | Returns None \<Rightarrow> Throws TypeError
             | Throws e \<Rightarrow> Throws e)
          else (fst (contact_lookup w m), Returns (payload m c sn))
      | Throws e \<Rightarrow> (fst (contact_lookup w m), Throws e))"
  by (simp add: envelope_def lookup_senderName_eq attach_media_def io_defs Let_def
           split: outcome.splits option.splits)

lemma map_of_with_media:
  "map_of (with_media md p) =
     (map_of p)(''type'' \<mapsto> JStr ''media'', ''mimetype'' \<mapsto> JStr (media_mimetype md),
                ''filename'' \<mapsto> JStr (or_str (media_filename md) ''file.bin''),
                ''data_base64'' \<mapsto> JStr (media_data md))"
  by (simp add: with_media_def update_conv')



lemma envelope_produced:
  assumes "envelope w m c = (t, Returns p)"
  obtains sn where "\<not> msg_hasMedia m" "p = payload m c sn"
  | sn md where "msg_hasMedia m" "downloadMedia w = Returns (Some md)" "p = with_media md (payload m c sn)"
  using assms unfolding envelope_eq lookup_senderName_eq
  by (auto split: if_splits outcome.splits option.splits)

lemma map_of_payload:
  "map_of (payload m c sn) =
     [''from_'' \<mapsto> JStr (msg_from m), ''author'' \<mapsto> or_null (msg_author m),
      ''timestamp'' \<mapsto> JNum (msg_timestamp m), ''isGroup'' \<mapsto> JBool (chat_isGroup c),
      ''groupName'' \<mapsto> groupName c, ''groupId'' \<mapsto> groupId m c, ''senderName'' \<mapsto> sn,
      ''senderNumber'' \<mapsto> senderNumber m, ''type'' \<mapsto> JStr ''text'', ''text'' \<mapsto> or_null (msg_body m)]"
  by (auto simp: payload_def fun_eq_iff)

lemma envelope_trace:
  "fst (envelope w m c) = fst (contact_lookup w m) @ (if msg_hasMedia m then [DownloadMedia] else [])"
  by (simp add: envelope_eq lookup_senderName_eq)

lemma envelope_trace_plain:
  "a \<in> set (fst (envelope w m c)) \<Longrightarrow> \<not> is_Fetch a \<and> \<not> is_ConsoleError a"
  using contact_lookup_trace [of w m]
  by (auto simp: envelope_trace is_Fetch_def is_ConsoleError_def split: if_splits)

lemma forward_eq:
  "io_bind (envelope w m c) (deliver L cfg w url) =
     (case snd (envelope w m c) of
        Throws e \<Rightarrow> (fst (envelope w m c), Throws e)
      | Returns p \<Rightarrow>
          (fst (envelope w m c) @
             [Fetch url (sign_headers L cfg (JSON_stringify L p)) (JSON_stringify L p)],
           case fetch w url (sign_headers L cfg (JSON_stringify L p)) (JSON_stringify L p) of
             Returns _ \<Rightarrow> Returns () | Throws e \<Rightarrow> Throws e))"
  by (cases "envelope w m c") (simp add: deliver_eq io_bind_def split: outcome.splits)

lemma on_message_eq:
  "on_message L cfg w m =
     (case getChat w of
        Throws e \<Rightarrow> ([GetChat, ConsoleError ''Error'' e], Returns ())
      | Returns c \<Rightarrow>
          if \<not> shouldForward cfg c then ([GetChat], Returns ())
          else (case snd (envelope w m c) of
                  Throws e \<Rightarrow>
                    (GetChat # fst (envelope w m c) @ [ConsoleError ''Error'' e], Returns ())
                | Returns p \<Rightarrow>
                    (case fetch w (IA_ENDPOINT cfg) (sign_headers L cfg (JSON_stringify L p))
                            (JSON_stringify L p) of
                       Returns _ \<Rightarrow>
                         (GetChat # fst (envelope w m c) @
                            [Fetch (IA_ENDPOINT cfg) (sign_headers L cfg (JSON_stringify L p))
                               (JSON_stringify L p)], Returns ())
                     | Throws e \<Rightarrow>
                         (GetChat # fst (envelope w m c) @
                            [Fetch (IA_ENDPOINT cfg) (sign_headers L cfg (JSON_stringify L p))
                               (JSON_stringify L p), ConsoleError ''Error'' e], Returns ()))))"
  by (simp add: on_message_def message_try_def forward_eq io_try_def io_await_def io_return_def
        io_bind_def [of "([GetChat], getChat w)"] split: outcome.splits)

lemma on_qr_eq:
  "on_qr L cfg w qr =
     (let body = JSON_stringify L [(''qr'', JStr qr)]; hs = sign_headers L cfg body in
      case qrcode_generate w qr of
        Throws e \<Rightarrow>
          ([ConsoleLog (''Escane'' @ [CHR 0xC3, CHR 0xA1] @ '' este QR:''), QrcodeGenerate qr],
           Throws e)
      | Returns _ \<Rightarrow>
          (case fetch w (QR_ENDPOINT cfg) hs body of
             Returns _ \<Rightarrow>
               ([ConsoleLog (''Escane'' @ [CHR 0xC3, CHR 0xA1] @ '' este QR:''), QrcodeGenerate qr,
                 Fetch (QR_ENDPOINT cfg) hs body], Returns ())
           | Throws e \<Rightarrow>
               ([ConsoleLog (''Escane'' @ [CHR 0xC3, CHR 0xA1] @ '' este QR:''), QrcodeGenerate qr,
                 Fetch (QR_ENDPOINT cfg) hs body, ConsoleError ''No se pudo publicar el QR'' e],
                Returns ())))"
  by (simp add: on_qr_def deliver_eq io_defs Let_def split: outcome.splits)

text \<open>The one error the handlers let escape: \<open>qrcode.generate\<close> throwing.\<close>

lemma on_qr_generate_throws:
  "qrcode_generate w qr = Throws e \<Longrightarrow>
   on_qr L cfg w qr =
     ([ConsoleLog (''Escane'' @ [CHR 0xC3, CHR 0xA1] @ '' este QR:''), QrcodeGenerate qr], Throws e)"
  by (simp add: on_qr_eq)

lemma on_ready_eq:
  "on_ready L cfg w =
     ([ConsoleLog (''WA listo '' @ [CHR 0xE2, CHR 0x9C, CHR 0x85]),
       Fetch (QR_ENDPOINT cfg) (sign_headers L cfg (JSON_stringify L [(''qr'', JNull)]))
         (JSON_stringify L [(''qr'', JNull)])], Returns ())"
  by (simp add: on_ready_def deliver_eq io_defs Let_def split: outcome.splits)

lemma emit_returns:
  "Fetch url hs body \<in> set (fst (emit L cfg w ev)) \<Longrightarrow> snd (emit L cfg w ev) = Returns ()"
  by (cases ev)
     (auto simp: emit_def on_qr_eq on_ready_eq on_message_eq Let_def split: outcome.splits)

lemma run_step:
  assumes "snd (emit L cfg w ev) = Returns ()"
  shows "run L cfg ((ev, w) # rest) =
           (fst (emit L cfg w ev) @ fst (run L cfg rest), snd (run L cfg rest))"
proof -
  from assms have "emit L cfg w ev = (fst (emit L cfg w ev), Returns ())"
    by (cases "emit L cfg w ev") simp
  then have "run L cfg ((ev, w) # rest) =
      io_bind (fst (emit L cfg w ev), Returns ()) (\<lambda>_. run L cfg rest)"
    by simp
  then show ?thesis
    by (cases "run L cfg rest") (simp add: io_bind_def)
qed

lemmas example_defs = toy_lib_def cfg_open_def cfg_trabajo_def m_hola_def m_group_def m_photo_def
  m_empty_def m_at_def c_private_def c_familia_def c_trabajo_def ct_ana_def md_jpeg_def w_ok_def
  w_familia_def w_offline_def w_500_def w_nomedia_def w_nocontact_def w_nocontact_nomedia_def

lemma shouldForward_iff:
  "shouldForward cfg c =
     (\<not> chat_isGroup c \<or> GROUP_WHITELIST cfg = [] \<or> chat_name c \<in> set (GROUP_WHITELIST cfg))"
  by (auto simp: shouldForward_def whitelist_includes_def groupName_def)

lemma envelope_trace_not_Nil: "fst (envelope w m c) \<noteq> []"
  using contact_lookup_trace [of w m] by (auto simp: envelope_trace)

subsection \<open>The group filter\<close>

text \<open>
  Claim C2. A message whose chat is not a group passes the filter whatever the whitelist;
  every message passes when the whitelist is empty; a group message under a non-empty
  whitelist passes exactly when its \<open>groupName\<close>, the chat's name, is an element of the
  whitelist, compared as it is (equality of strings: no case folding, no trimming). The
  handler stops after the chat lookup exactly when the filter rejects.
\<close>

theorem group_filter:
  "(\<not> chat_isGroup c \<longrightarrow> shouldForward cfg c)
   \<and> (GROUP_WHITELIST cfg = [] \<longrightarrow> shouldForward cfg c)
   \<and> (chat_isGroup c \<and> GROUP_WHITELIST cfg \<noteq> [] \<longrightarrow>
        groupName c = JStr (chat_name c)
        \<and> shouldForward cfg c = (chat_name c \<in> set (GROUP_WHITELIST cfg)))
   \<and> (getChat w = Returns c \<longrightarrow>
        (fst (on_message L cfg w m) = [GetChat]) = (\<not> shouldForward cfg c))"
proof -
  have "fst (on_message L cfg w m) \<noteq> [GetChat]" if "getChat w = Returns c" "shouldForward cfg c"
    using that envelope_trace_not_Nil [of w m c]
    by (simp add: on_message_eq split: outcome.splits)
  moreover have "fst (on_message L cfg w m) = [GetChat]"
    if "getChat w = Returns c" "\<not> shouldForward cfg c"
    using that by (simp add: on_message_eq)
  ultimately show ?thesis
    by (auto simp: shouldForward_iff groupName_def)
qed

text \<open>
  The group \<open>Familia\<close> is stopped by the whitelist \<open>[Trabajo]\<close> and the group \<open>Trabajo\<close>
  passes it, but not the whitelist \<open>[trabajo, " Trabajo"]\<close>; the empty whitelist lets
  \<open>Familia\<close> through, and a private chat passes the whitelist \<open>[Trabajo]\<close>.
\<close>

theorem group_filter_witness:
  "chat_isGroup c_familia \<and> GROUP_WHITELIST cfg_trabajo \<noteq> [] \<and> getChat w_familia = Returns c_familia
   \<and> \<not> shouldForward cfg_trabajo c_familia
   \<and> shouldForward cfg_trabajo c_trabajo
   \<and> \<not> shouldForward (cfg_trabajo\<lparr>GROUP_WHITELIST := [''trabajo'', '' Trabajo'']\<rparr>) c_trabajo
   \<and> shouldForward cfg_open c_familia
   \<and> shouldForward cfg_trabajo c_private
   \<and> fst (on_message toy_lib cfg_trabajo w_familia m_group) = [GetChat]"
  using group_filter [of c_familia cfg_trabajo w_familia toy_lib m_group]
        group_filter [of c_trabajo cfg_trabajo w_familia toy_lib m_group]
        group_filter [of c_trabajo "cfg_trabajo\<lparr>GROUP_WHITELIST := [''trabajo'', '' Trabajo'']\<rparr>"
                         w_familia toy_lib m_group]
        group_filter [of c_familia cfg_open w_familia toy_lib m_group]
        group_filter [of c_private cfg_trabajo w_familia toy_lib m_group]
  by (simp add: example_defs)

text \<open>
  Claim C10. When the chat is a group, the whitelist is not empty and the group's name is
  not in it, the handler performs the chat lookup and nothing else: no contact lookup, no
  media download, no HTTP POST, no log line; it returns normally.
\<close>

theorem whitelist_miss_no_io:
  assumes "getChat w = Returns c" and "chat_isGroup c" and "GROUP_WHITELIST cfg \<noteq> []"
    and "chat_name c \<notin> set (GROUP_WHITELIST cfg)"
  shows "on_message L cfg w m = ([GetChat], Returns ())"
  using assms by (simp add: on_message_eq shouldForward_iff)

theorem whitelist_miss_no_io_witness:
  "getChat w_familia = Returns c_familia \<and> chat_isGroup c_familia
   \<and> GROUP_WHITELIST cfg_trabajo \<noteq> [] \<and> chat_name c_familia \<notin> set (GROUP_WHITELIST cfg_trabajo)
   \<and> on_message toy_lib cfg_trabajo w_familia m_photo = ([GetChat], Returns ())"
proof -
  have h: "getChat w_familia = Returns c_familia" "chat_isGroup c_familia"
    "GROUP_WHITELIST cfg_trabajo \<noteq> []" "chat_name c_familia \<notin> set (GROUP_WHITELIST cfg_trabajo)"
    by (simp_all add: example_defs)
  from whitelist_miss_no_io [OF h] h show ?thesis by simp
qed

lemma emit_Fetch_headers:
  "Fetch url hs b \<in> set (fst (emit L cfg w ev)) \<Longrightarrow> hs = sign_headers L cfg b"
proof (cases ev)
  case (QrIssued qr)
  assume "Fetch url hs b \<in> set (fst (emit L cfg w ev))"
  with QrIssued show ?thesis
    by (auto simp: emit_def on_qr_eq Let_def split: outcome.splits)
next
  case SessionReady
  assume "Fetch url hs b \<in> set (fst (emit L cfg w ev))"
  with SessionReady show ?thesis
    by (auto simp: emit_def on_ready_eq)
next
  case (MessageReceived m)
  assume "Fetch url hs b \<in> set (fst (emit L cfg w ev))"
  with MessageReceived have "Fetch url hs b \<in> set (fst (on_message L cfg w m))"
    by (simp add: emit_def)
  then show ?thesis
    using envelope_trace_plain [of "Fetch url hs b" w m]
    by (auto simp: on_message_eq is_Fetch_def split: outcome.splits if_splits)
qed

subsection \<open>The signer\<close>

text \<open>
  Claim C3. For every body and every configured secret: when the secret is unset or
  empty, the headers are exactly \<open>Content-Type: application/json\<close> and there is no
  \<open>x-signature\<close>; otherwise they are that header followed by \<open>x-signature\<close>, the hex
  digest of the HMAC with algorithm \<open>sha256\<close>, the secret as key, over the body. Every
  POST issued by any of the three handlers carries these headers for its own body.
\<close>

theorem signer:
  "(env_HMAC_SECRET cfg = None \<or> env_HMAC_SECRET cfg = Some [] \<longrightarrow>
      sign_headers L cfg body = [(''Content-Type'', ''application/json'')]
      \<and> map_of (sign_headers L cfg body) ''x-signature'' = None)
   \<and> (\<forall>s. env_HMAC_SECRET cfg = Some s \<and> s \<noteq> [] \<longrightarrow>
        sign_headers L cfg body =
          [(''Content-Type'', ''application/json''),
           (''x-signature'', createHmac_hex L ''sha256'' s body)])
   \<and> (Fetch url hs b \<in> set (fst (emit L cfg w ev)) \<longrightarrow> hs = sign_headers L cfg b)"
  using emit_Fetch_headers [of url hs b L cfg w ev]
  by (auto simp: sign_headers_def HMAC_SECRET_def or_str_def)

theorem signer_witness:
  "env_HMAC_SECRET cfg_open = None
   \<and> sign_headers toy_lib cfg_open ''{}'' = [(''Content-Type'', ''application/json'')]
   \<and> sign_headers toy_lib (cfg_open\<lparr>env_HMAC_SECRET := Some []\<rparr>) ''{}''
       = [(''Content-Type'', ''application/json'')]
   \<and> env_HMAC_SECRET cfg_trabajo = Some ''s3cret''
   \<and> sign_headers toy_lib cfg_trabajo ''{}'' =
       [(''Content-Type'', ''application/json''),
        (''x-signature'', createHmac_hex toy_lib ''sha256'' ''s3cret'' ''{}'')]
   \<and> Fetch ''http://localhost:8000/qr'' (sign_headers toy_lib cfg_trabajo ''qr'') ''qr''
       \<in> set (fst (emit toy_lib cfg_trabajo w_ok SessionReady))"
  using signer [of cfg_open toy_lib "''{}''" "''http://localhost:8000/qr''"
                   "sign_headers toy_lib cfg_trabajo ''qr''" "''qr''" w_ok SessionReady]
        signer [of "cfg_open\<lparr>env_HMAC_SECRET := Some []\<rparr>" toy_lib "''{}''" "''http://localhost:8000/qr''"
                   "sign_headers toy_lib cfg_trabajo ''qr''" "''qr''" w_ok SessionReady]
        signer [of cfg_trabajo toy_lib "''{}''" "''http://localhost:8000/qr''"
                   "sign_headers toy_lib cfg_trabajo ''qr''" "''qr''" w_ok SessionReady]
  by (simp add: example_defs emit_def on_ready_eq)

subsection \<open>Failures while a message is handled\<close>

text \<open>
  Claim C5. When the handler reaches the media download and the download fails (the
  promise rejects, or resolves to nothing so that reading the media throws), the handler
  issues no HTTP POST at all, its last action is the error log of the outer \<open>catch\<close>
  carrying that failure, and it returns normally.
\<close>

theorem media_download_failure:
  assumes "DownloadMedia \<in> set (fst (on_message L cfg w m))"
    and "downloadMedia w = Throws e \<or> downloadMedia w = Returns None"
  shows "snd (on_message L cfg w m) = Returns ()
       \<and> filter is_Fetch (fst (on_message L cfg w m)) = []
       \<and> last (fst (on_message L cfg w m)) =
           ConsoleError ''Error'' (case downloadMedia w of Throws e' \<Rightarrow> e' | Returns _ \<Rightarrow> TypeError)"
proof (cases "getChat w")
  case (Throws e')
  with assms(1) show ?thesis by (simp add: on_message_eq)
next
  case (Returns c)
  with assms(1) have fw: "shouldForward cfg c"
    by (auto simp: on_message_eq split: if_splits)
  have media: "msg_hasMedia m"
  proof (rule ccontr)
    assume "\<not> msg_hasMedia m"
    with assms(1) Returns fw contact_lookup_trace [of w m] show False
      by (auto simp: on_message_eq envelope_trace split: outcome.splits)
  qed
  have plain: "filter is_Fetch (fst (envelope w m c)) = []"
    using envelope_trace_plain [of _ w m c] by (auto simp: filter_empty_conv)
  from assms(2) media have "snd (envelope w m c) =
      Throws (case downloadMedia w of Throws e' \<Rightarrow> e' | Returns _ \<Rightarrow> TypeError)"
    by (auto simp: envelope_eq lookup_senderName_eq)
  with Returns fw plain show ?thesis
    by (simp add: on_message_eq is_Fetch_def)
qed

theorem media_download_failure_witness:
  "DownloadMedia \<in> set (fst (on_message toy_lib cfg_open w_nomedia m_photo))
   \<and> downloadMedia w_nomedia = Throws (Rejected ''download failed'')
   \<and> on_message toy_lib cfg_open w_nomedia m_photo =
       ([GetChat, GetContact, DownloadMedia, ConsoleError ''Error'' (Rejected ''download failed'')],
        Returns ())
   \<and> filter is_Fetch (fst (on_message toy_lib cfg_open w_nomedia m_photo)) = []"
proof -
  have eq: "on_message toy_lib cfg_open w_nomedia m_photo =
       ([GetChat, GetContact, DownloadMedia, ConsoleError ''Error'' (Rejected ''download failed'')],
        Returns ())"
    by (simp add: on_message_eq envelope_eq lookup_senderName_eq contact_lookup_def
          shouldForward_iff io_defs example_defs)
  have h1: "DownloadMedia \<in> set (fst (on_message toy_lib cfg_open w_nomedia m_photo))"
    by (simp add: eq)
  have h2: "downloadMedia w_nomedia = Throws (Rejected ''download failed'')
            \<or> downloadMedia w_nomedia = Returns None"
    by (simp add: example_defs)
  from media_download_failure [OF h1 h2] h1 h2 eq show ?thesis
    by (simp add: example_defs)
qed

lemma lookup_failure_null:
  "snd (contact_lookup w m) = Throws e \<or> snd (contact_lookup w m) = Returns None \<Longrightarrow>
   lookup_senderName w m = (fst (contact_lookup w m), Returns JNull)"
  by (auto simp: lookup_senderName_eq senderName_of_def)

text \<open>
  Claim C9, as the code has it. When the chat lookup succeeds, the filter passes and the
  contact lookup fails (it throws, or yields no contact), the lookup's failure is
  absorbed: \<open>senderName\<close> is \<open>null\<close>. Provided the media download succeeds when the
  message has media, the envelope is built with that \<open>null\<close> and the handler issues
  exactly one POST, to the ingestion endpoint, with that envelope as body; it returns
  normally.
\<close>

theorem contact_lookup_failure:
  assumes "getChat w = Returns c" and "shouldForward cfg c"
    and "snd (contact_lookup w m) = Throws e \<or> snd (contact_lookup w m) = Returns None"
    and "msg_hasMedia m \<longrightarrow> downloadMedia w = Returns (Some md)"
  shows "\<exists>p. snd (lookup_senderName w m) = Returns JNull
           \<and> snd (envelope w m c) = Returns p
           \<and> map_of p ''senderName'' = Some JNull
           \<and> filter is_Fetch (fst (on_message L cfg w m)) =
               [Fetch (IA_ENDPOINT cfg) (sign_headers L cfg (JSON_stringify L p)) (JSON_stringify L p)]
           \<and> snd (on_message L cfg w m) = Returns ()"
proof -
  define p where "p = (if msg_hasMedia m then with_media md (payload m c JNull) else payload m c JNull)"
  have sn: "lookup_senderName w m = (fst (contact_lookup w m), Returns JNull)"
    using assms(3) by (rule lookup_failure_null)
  have env: "snd (envelope w m c) = Returns p"
    using assms(4) by (simp add: envelope_eq sn p_def)
  have name: "map_of p ''senderName'' = Some JNull"
    by (simp add: p_def map_of_with_media map_of_payload)
  have plain: "filter is_Fetch (fst (envelope w m c)) = []"
    using envelope_trace_plain [of _ w m c] by (auto simp: filter_empty_conv)
  have "filter is_Fetch (fst (on_message L cfg w m)) =
          [Fetch (IA_ENDPOINT cfg) (sign_headers L cfg (JSON_stringify L p)) (JSON_stringify L p)]
        \<and> snd (on_message L cfg w m) = Returns ()"
    using assms(1,2) env plain
    by (simp add: on_message_eq is_Fetch_def split: outcome.splits)
  with sn env name show ?thesis by auto
qed

text \<open>
  A photo whose contact lookup fails and whose download fails as well: the event passes
  the filter, the lookup's failure is absorbed, and yet nothing is posted.
\<close>

theorem contact_lookup_failure_counterexample:
  "getChat w_nocontact_nomedia = Returns c_private
   \<and> shouldForward cfg_open c_private
   \<and> contact_lookup w_nocontact_nomedia m_photo = ([GetContact], Throws (Rejected ''lookup failed''))
   \<and> on_message toy_lib cfg_open w_nocontact_nomedia m_photo =
       ([GetChat, GetContact, DownloadMedia, ConsoleError ''Error'' (Rejected ''download failed'')],
        Returns ())
   \<and> filter is_Fetch (fst (on_message toy_lib cfg_open w_nocontact_nomedia m_photo)) = []"
  by (simp add: on_message_eq envelope_eq lookup_senderName_eq contact_lookup_def
        shouldForward_iff io_defs is_Fetch_def example_defs)

text \<open>
  A photo whose contact lookup fails and whose download succeeds, and a text message
  whose contact lookup fails: each is posted, with \<open>senderName\<close> \<open>null\<close>.
\<close>

theorem contact_lookup_failure_witness:
  "getChat w_nocontact = Returns c_private \<and> shouldForward cfg_open c_private
   \<and> snd (contact_lookup w_nocontact m_photo) = Throws (Rejected ''lookup failed'')
   \<and> msg_hasMedia m_photo \<and> downloadMedia w_nocontact = Returns (Some md_jpeg)
   \<and> (\<exists>p. snd (envelope w_nocontact m_photo c_private) = Returns p
          \<and> map_of p ''senderName'' = Some JNull
          \<and> filter is_Fetch (fst (on_message toy_lib cfg_open w_nocontact m_photo)) =
               [Fetch (IA_ENDPOINT cfg_open) (sign_headers toy_lib cfg_open (JSON_stringify toy_lib p))
                  (JSON_stringify toy_lib p)])
   \<and> snd (contact_lookup w_nocontact m_hola) = Throws (Rejected ''lookup failed'')
   \<and> \<not> msg_hasMedia m_hola
   \<and> (\<exists>p. snd (envelope w_nocontact m_hola c_private) = Returns p
          \<and> map_of p ''senderName'' = Some JNull
          \<and> filter is_Fetch (fst (on_message toy_lib cfg_open w_nocontact m_hola)) =
               [Fetch (IA_ENDPOINT cfg_open) (sign_headers toy_lib cfg_open (JSON_stringify toy_lib p))
                  (JSON_stringify toy_lib p)])"
proof -
  have h1: "getChat w_nocontact = Returns c_private"
    and h2: "shouldForward cfg_open c_private"
    by (simp_all add: example_defs shouldForward_iff)
  have p3: "snd (contact_lookup w_nocontact m_photo) = Throws (Rejected ''lookup failed'')"
    and p4: "msg_hasMedia m_photo" "downloadMedia w_nocontact = Returns (Some md_jpeg)"
    and t3: "snd (contact_lookup w_nocontact m_hola) = Throws (Rejected ''lookup failed'')"
    and t4: "\<not> msg_hasMedia m_hola"
    by (simp_all add: example_defs contact_lookup_def io_defs)
  have photo: "\<exists>p. snd (envelope w_nocontact m_photo c_private) = Returns p
          \<and> map_of p ''senderName'' = Some JNull
          \<and> filter is_Fetch (fst (on_message toy_lib cfg_open w_nocontact m_photo)) =
               [Fetch (IA_ENDPOINT cfg_open) (sign_headers toy_lib cfg_open (JSON_stringify toy_lib p))
                  (JSON_stringify toy_lib p)]"
    using contact_lookup_failure [of w_nocontact c_private cfg_open m_photo
            "Rejected ''lookup failed''" md_jpeg toy_lib] h1 h2 p3 p4
    by blast
  have plain: "\<exists>p. snd (envelope w_nocontact m_hola c_private) = Returns p
          \<and> map_of p ''senderName'' = Some JNull
          \<and> filter is_Fetch (fst (on_message toy_lib cfg_open w_nocontact m_hola)) =
               [Fetch (IA_ENDPOINT cfg_open) (sign_headers toy_lib cfg_open (JSON_stringify toy_lib p))
                  (JSON_stringify toy_lib p)]"
    using contact_lookup_failure [of w_nocontact c_private cfg_open m_hola
            "Rejected ''lookup failed''" md_jpeg toy_lib] h1 h2 t3 t4
    by blast
  from h1 h2 p3 p4 t3 t4 photo plain show ?thesis
    by blast
qed

subsection \<open>The fields of the envelope\<close>

text \<open>
  Claim C1, as the code has it. For every envelope the handler builds: \<open>type\<close> is
  \<open>media\<close> when the message has media and \<open>text\<close> otherwise; the three media fields are
  all present when \<open>type\<close> is \<open>media\<close> and all absent when it is \<open>text\<close>; and \<open>text\<close>
  is present exactly when the message body is non-empty, whatever the type.
\<close>

theorem envelope_groups:
  assumes "envelope w m c = (t, Returns p)"
  shows "map_of p ''type'' = Some (JStr (if msg_hasMedia m then ''media'' else ''text''))
       \<and> (if msg_hasMedia m then media_fields p else no_media_fields p)
       \<and> present p ''text'' = truthy (msg_body m)"
  using assms
  by (elim envelope_produced)
     (auto simp: map_of_with_media map_of_payload media_fields_def no_media_fields_def present_def
        field_def or_null_def truthy_def split: option.splits)

text \<open>
  A photo with the caption \<open>hola\<close>: the envelope has \<open>text\<close> and the three media
  fields at once, so the invariant as the specification words it does not hold.
\<close>

theorem envelope_groups_counterexample:
  "snd (envelope w_ok m_photo c_private) =
     Returns (with_media md_jpeg (payload m_photo c_private (JStr ''Ana'')))
   \<and> \<not> spec_exactly_one_group (with_media md_jpeg (payload m_photo c_private (JStr ''Ana'')))"
  by (simp add: envelope_eq lookup_senderName_eq contact_lookup_def senderName_of_def js_or_def
        truthy_def or_null_def io_defs spec_exactly_one_group_def map_of_with_media map_of_payload
        media_fields_def present_def field_def example_defs)

theorem envelope_groups_witness:
  "envelope w_ok m_photo c_private =
     ([GetContact, DownloadMedia], Returns (with_media md_jpeg (payload m_photo c_private (JStr ''Ana''))))
   \<and> map_of (with_media md_jpeg (payload m_photo c_private (JStr ''Ana''))) ''type'' = Some (JStr ''media'')
   \<and> media_fields (with_media md_jpeg (payload m_photo c_private (JStr ''Ana'')))
   \<and> present (with_media md_jpeg (payload m_photo c_private (JStr ''Ana''))) ''text''"
proof -
  have h: "envelope w_ok m_photo c_private =
     ([GetContact, DownloadMedia], Returns (with_media md_jpeg (payload m_photo c_private (JStr ''Ana''))))"
    by (simp add: envelope_eq lookup_senderName_eq contact_lookup_def senderName_of_def js_or_def
        truthy_def or_null_def io_defs example_defs)
  have m: "msg_hasMedia m_photo" "truthy (msg_body m_photo)"
    by (simp_all add: example_defs truthy_def)
  from envelope_groups [OF h] h m show ?thesis by simp
qed

lemma source_field_payload:
  "source_field (payload m c sn) = or_str (js_or (msg_author m) (Some (msg_from m))) []"
  by (auto simp: source_field_def field_def map_of_payload or_null_def or_str_def js_or_def
        truthy_def split: option.splits)

lemma field_with_media:
  "field (with_media md p) ''author'' = field p ''author''"
  "field (with_media md p) ''from_'' = field p ''from_''"
  by (simp_all add: field_def map_of_with_media)

lemma source_field_with_media:
  "source_field (with_media md p) = source_field p"
  unfolding source_field_def field_with_media ..

lemma senderNumber_before_at:
  "senderNumber m =
     (if before_at (or_str (js_or (msg_author m) (Some (msg_from m))) []) = [] then JNull
      else JStr (before_at (or_str (js_or (msg_author m) (Some (msg_from m))) [])))"
  by (simp add: senderNumber_def index0_split before_at_def or_null_def)

text \<open>
  Claim C4, as the code has it. For every envelope, \<open>senderNumber\<close> is the substring
  before the first \<open>@\<close> of the source field (\<open>author\<close> when present, else \<open>from_\<close>)
  when that substring is not empty, and it is absent (\<open>null\<close>) exactly when that
  substring is empty; an empty source field is one such case.
\<close>

theorem senderNumber_prefix:
  assumes "envelope w m c = (t, Returns p)"
  shows "map_of p ''senderNumber'' =
           Some (if before_at (source_field p) = [] then JNull
                 else JStr (before_at (source_field p)))
       \<and> present p ''senderNumber'' = (before_at (source_field p) \<noteq> [])
       \<and> (source_field p = [] \<longrightarrow> \<not> present p ''senderNumber'')"
proof -
  have src: "source_field p = or_str (js_or (msg_author m) (Some (msg_from m))) []"
    using assms by (elim envelope_produced) (simp_all add: source_field_payload source_field_with_media)
  have num: "map_of p ''senderNumber'' = Some (senderNumber m)"
    using assms by (elim envelope_produced) (simp_all add: map_of_payload map_of_with_media)
  show ?thesis
    by (simp add: num src senderNumber_before_at present_def field_def before_at_def)
qed

text \<open>
  A message from \<open>@c.us\<close>: the source field is not empty, and \<open>senderNumber\<close> is
  absent.
\<close>

theorem senderNumber_prefix_counterexample:
  "snd (envelope w_ok m_at c_private) = Returns (payload m_at c_private (JStr ''Ana''))
   \<and> source_field (payload m_at c_private (JStr ''Ana'')) = ''@c.us''
   \<and> \<not> present (payload m_at c_private (JStr ''Ana'')) ''senderNumber''"
  by (simp add: envelope_eq lookup_senderName_eq contact_lookup_def senderName_of_def js_or_def
        truthy_def or_null_def or_str_def io_defs source_field_payload map_of_payload
        senderNumber_before_at before_at_def present_def field_def example_defs)

theorem senderNumber_prefix_witness:
  "envelope w_ok m_group c_familia =
     ([GetContactById ''5491155550000@c.us''], Returns (payload m_group c_familia (JStr ''Ana'')))
   \<and> source_field (payload m_group c_familia (JStr ''Ana'')) = ''5491155550000@c.us''
   \<and> map_of (payload m_group c_familia (JStr ''Ana'')) ''senderNumber'' = Some (JStr ''5491155550000'')"
proof -
  have h: "envelope w_ok m_group c_familia =
     ([GetContactById ''5491155550000@c.us''], Returns (payload m_group c_familia (JStr ''Ana'')))"
    by (simp add: envelope_eq lookup_senderName_eq contact_lookup_def senderName_of_def js_or_def
        truthy_def or_null_def io_defs example_defs)
  have s: "source_field (payload m_group c_familia (JStr ''Ana'')) = ''5491155550000@c.us''"
    by (simp add: source_field_payload or_str_def js_or_def truthy_def example_defs)
  from senderNumber_prefix [OF h] h s show ?thesis
    by (simp add: before_at_def)
qed

text \<open>
  Claim C8, as the code has it. The \<open>text\<close> field of every envelope (of a text-type
  message in particular) is the message body unchanged when the body is a non-empty
  string, and \<open>null\<close> when the body is missing, \<open>null\<close> or the empty string.
\<close>

theorem text_verbatim:
  assumes "envelope w m c = (t, Returns p)"
  shows "map_of p ''text'' =
           Some (case msg_body m of None \<Rightarrow> JNull
                 | Some b \<Rightarrow> if b = [] then JNull else JStr b)"
  using assms
  by (elim envelope_produced)
     (auto simp: map_of_payload map_of_with_media or_null_def split: option.splits)

text \<open>
  A text-type message whose body is the empty string: the body is a string, not
  \<open>null\<close>, and the envelope's \<open>text\<close> is \<open>null\<close>.
\<close>

theorem text_verbatim_counterexample:
  "msg_body m_empty = Some []
   \<and> \<not> msg_hasMedia m_empty
   \<and> snd (envelope w_ok m_empty c_private) = Returns (payload m_empty c_private (JStr ''Ana''))
   \<and> map_of (payload m_empty c_private (JStr ''Ana'')) ''text'' = Some JNull"
  by (simp add: envelope_eq lookup_senderName_eq contact_lookup_def senderName_of_def js_or_def
        truthy_def or_null_def io_defs map_of_payload example_defs)

theorem text_verbatim_witness:
  "envelope w_ok m_hola c_private = ([GetContact], Returns (payload m_hola c_private (JStr ''Ana'')))
   \<and> map_of (payload m_hola c_private (JStr ''Ana'')) ''text'' = Some (JStr ''hola'')"
proof -
  have h: "envelope w_ok m_hola c_private =
             ([GetContact], Returns (payload m_hola c_private (JStr ''Ana'')))"
    by (simp add: envelope_eq lookup_senderName_eq contact_lookup_def senderName_of_def js_or_def
        truthy_def or_null_def io_defs example_defs)
  from text_verbatim [OF h] h show ?thesis
    by (simp add: example_defs)
qed

lemma on_message_Fetch:
  assumes "getChat w = Returns c" and "Fetch url hs body \<in> set (fst (on_message L cfg w m))"
  shows "\<exists>p. snd (envelope w m c) = Returns p \<and> shouldForward cfg c \<and> url = IA_ENDPOINT cfg
           \<and> body = JSON_stringify L p \<and> hs = sign_headers L cfg body"
  using assms envelope_trace_plain [of "Fetch url hs body" w m c]
  by (auto simp: on_message_eq is_Fetch_def split: if_splits outcome.splits)

text \<open>
  Claim C7, as the code has it. The body of every POST the message handler issues is the
  serialisation of an envelope whose key \<open>from_\<close> (with the underscore; there is no key
  \<open>from\<close>) holds the chat identifier as a string, and whose \<open>groupId\<close> is that same
  identifier when \<open>isGroup\<close> is true and \<open>null\<close> otherwise.
\<close>

theorem delivered_from_groupId:
  assumes "getChat w = Returns c" and "Fetch url hs body \<in> set (fst (on_message L cfg w m))"
  shows "\<exists>p. snd (envelope w m c) = Returns p \<and> url = IA_ENDPOINT cfg \<and> body = JSON_stringify L p
           \<and> map_of p ''from_'' = Some (JStr (msg_from m))
           \<and> map_of p ''from'' = None
           \<and> map_of p ''isGroup'' = Some (JBool (chat_isGroup c))
           \<and> map_of p ''groupId'' = Some (if chat_isGroup c then JStr (msg_from m) else JNull)
           \<and> field p ''groupId'' = (if chat_isGroup c then field p ''from_'' else None)"
proof -
  from on_message_Fetch [OF assms] obtain p where
    p: "snd (envelope w m c) = Returns p" "url = IA_ENDPOINT cfg" "body = JSON_stringify L p"
    by blast
  then have "envelope w m c = (fst (envelope w m c), Returns p)"
    by (cases "envelope w m c") simp
  then have "map_of p ''from_'' = Some (JStr (msg_from m))
           \<and> map_of p ''from'' = None
           \<and> map_of p ''isGroup'' = Some (JBool (chat_isGroup c))
           \<and> map_of p ''groupId'' = Some (if chat_isGroup c then JStr (msg_from m) else JNull)"
    by (elim envelope_produced) (simp_all add: map_of_payload map_of_with_media groupId_def)
  with p show ?thesis by (auto simp: field_def)
qed

text \<open>The envelope delivered for a group message has no key \<open>from\<close>.\<close>

theorem delivered_from_groupId_counterexample:
  "filter is_Fetch (fst (on_message toy_lib cfg_open w_familia m_group)) =
     [Fetch (IA_ENDPOINT cfg_open) [(''Content-Type'', ''application/json'')]
        (JSON_stringify toy_lib (payload m_group c_familia (JStr ''Ana'')))]
   \<and> map_of (payload m_group c_familia (JStr ''Ana'')) ''from'' = None"
  by (simp add: on_message_eq envelope_eq lookup_senderName_eq contact_lookup_def senderName_of_def
        js_or_def truthy_def or_null_def io_defs shouldForward_iff sign_headers_def HMAC_SECRET_def
        or_str_def is_Fetch_def map_of_payload example_defs)

theorem delivered_from_groupId_witness:
  "getChat w_familia = Returns c_familia
   \<and> Fetch (IA_ENDPOINT cfg_open) [(''Content-Type'', ''application/json'')]
        (JSON_stringify toy_lib (payload m_group c_familia (JStr ''Ana'')))
       \<in> set (fst (on_message toy_lib cfg_open w_familia m_group))
   \<and> (\<exists>p. snd (envelope w_familia m_group c_familia) = Returns p
          \<and> map_of p ''from_'' = Some (JStr ''120363000000000000@g.us'')
          \<and> map_of p ''groupId'' = Some (JStr ''120363000000000000@g.us''))"
proof -
  have h1: "getChat w_familia = Returns c_familia"
    by (simp add: example_defs)
  have h2: "Fetch (IA_ENDPOINT cfg_open) [(''Content-Type'', ''application/json'')]
        (JSON_stringify toy_lib (payload m_group c_familia (JStr ''Ana'')))
       \<in> set (fst (on_message toy_lib cfg_open w_familia m_group))"
    by (simp add: on_message_eq envelope_eq lookup_senderName_eq contact_lookup_def senderName_of_def
        js_or_def truthy_def or_null_def io_defs shouldForward_iff sign_headers_def HMAC_SECRET_def
        or_str_def example_defs)
  have g: "chat_isGroup c_familia" "msg_from m_group = ''120363000000000000@g.us''"
    by (simp_all add: example_defs)
  from delivered_from_groupId [OF h1 h2] h1 h2 g show ?thesis
    by auto
qed

subsection \<open>Delivery failures\<close>

text \<open>
  Claim C6, as the code has it. A handler that has attempted its POST returns normally,
  whatever the POST's outcome, and the session goes on with the events after it exactly
  as if they came alone. When the POST rejects, the \<open>qr\<close> handler and the \<open>message\<close>
  handler end with their error log carrying the rejection; the \<open>ready\<close> handler, whose
  \<open>catch\<close> is empty, logs nothing. A POST that resolves, with whatever status, is not a
  failure for any handler: nothing is logged.
\<close>

theorem delivery_failure_swallowed:
  "(Fetch url hs body \<in> set (fst (emit L cfg w ev)) \<longrightarrow>
        snd (emit L cfg w ev) = Returns ()
        \<and> run L cfg ((ev, w) # rest) =
            (fst (emit L cfg w ev) @ fst (run L cfg rest), snd (run L cfg rest)))
   \<and> (Fetch url hs body \<in> set (fst (emit L cfg w ev)) \<and> fetch w url hs body = Throws e \<longrightarrow>
        (case ev of
           QrIssued _ \<Rightarrow>
             last (fst (emit L cfg w ev)) = ConsoleError ''No se pudo publicar el QR'' e
         | SessionReady \<Rightarrow> filter is_ConsoleError (fst (emit L cfg w ev)) = []
         | MessageReceived _ \<Rightarrow> last (fst (emit L cfg w ev)) = ConsoleError ''Error'' e))
   \<and> (Fetch url hs body \<in> set (fst (emit L cfg w ev)) \<and> fetch w url hs body = Returns status \<longrightarrow>
        filter is_ConsoleError (fst (emit L cfg w ev)) = [])"
proof -
  have plain: "filter is_ConsoleError (fst (envelope w m c)) = []" for m c
    using envelope_trace_plain [of _ w m c] by (auto simp: filter_empty_conv)
  have notin: "Fetch url hs body \<notin> set (fst (envelope w m c))" for m c
    using envelope_trace_plain [of "Fetch url hs body" w m c] by (auto simp: is_Fetch_def)
  have returns: "Fetch url hs body \<in> set (fst (emit L cfg w ev)) \<longrightarrow>
        snd (emit L cfg w ev) = Returns ()
        \<and> run L cfg ((ev, w) # rest) =
            (fst (emit L cfg w ev) @ fst (run L cfg rest), snd (run L cfg rest))"
    using emit_returns [of url hs body L cfg w ev] run_step [of L cfg w ev rest]
    by blast
  have logs: "Fetch url hs body \<in> set (fst (emit L cfg w ev)) \<and> fetch w url hs body = Throws e \<longrightarrow>
        (case ev of
           QrIssued _ \<Rightarrow>
             last (fst (emit L cfg w ev)) = ConsoleError ''No se pudo publicar el QR'' e
         | SessionReady \<Rightarrow> filter is_ConsoleError (fst (emit L cfg w ev)) = []
         | MessageReceived _ \<Rightarrow> last (fst (emit L cfg w ev)) = ConsoleError ''Error'' e)"
  proof (cases ev)
    case (QrIssued qr)
    then show ?thesis
      by (auto simp: emit_def on_qr_eq Let_def split: outcome.splits)
  next
    case SessionReady
    then show ?thesis
      by (simp add: emit_def on_ready_eq is_ConsoleError_def)
  next
    case (MessageReceived m)
    then show ?thesis
      using notin [of m]
      by (auto simp: emit_def on_message_eq split: outcome.splits if_splits)
  qed
  have quiet: "Fetch url hs body \<in> set (fst (emit L cfg w ev)) \<and> fetch w url hs body = Returns status
        \<longrightarrow> filter is_ConsoleError (fst (emit L cfg w ev)) = []"
  proof (cases ev)
    case (QrIssued qr)
    then show ?thesis
      by (auto simp: emit_def on_qr_eq Let_def is_ConsoleError_def split: outcome.splits)
  next
    case SessionReady
    then show ?thesis
      by (simp add: emit_def on_ready_eq is_ConsoleError_def)
  next
    case (MessageReceived m)
    then show ?thesis
      using notin [of m] plain [of m]
      by (auto simp: emit_def on_message_eq is_ConsoleError_def split: outcome.splits if_splits)
  qed
  from returns logs quiet show ?thesis
    by blast
qed

lemmas eval_defs = emit_def on_qr_eq on_ready_eq on_message_eq envelope_eq lookup_senderName_eq
  contact_lookup_def senderName_of_def js_or_def truthy_def or_null_def or_str_def io_defs
  shouldForward_iff sign_headers_def HMAC_SECRET_def is_Fetch_def is_ConsoleError_def

text \<open>
  The \<open>ready\<close> event while the endpoint refuses connections: the POST is attempted and
  rejects, and no error is logged.
\<close>

theorem delivery_failure_swallowed_counterexample:
  "filter is_Fetch (fst (emit toy_lib cfg_open w_offline SessionReady)) =
     [Fetch ''http://localhost:8000/qr'' [(''Content-Type'', ''application/json'')] ''qr'']
   \<and> fetch w_offline ''http://localhost:8000/qr'' [(''Content-Type'', ''application/json'')] ''qr''
       = Throws (Rejected ''ECONNREFUSED'')
   \<and> filter is_ConsoleError (fst (emit toy_lib cfg_open w_offline SessionReady)) = []"
  by (simp add: eval_defs example_defs)

text \<open>
  A \<open>qr\<close> event while the endpoint refuses connections, followed by a message while the
  endpoint answers 500: the first is logged and swallowed, the second is handled as usual
  and logs nothing.
\<close>

theorem delivery_failure_swallowed_witness:
  "Fetch ''http://localhost:8000/qr'' [(''Content-Type'', ''application/json'')] ''qr''
     \<in> set (fst (emit toy_lib cfg_open w_offline (QrIssued ''ABC'')))
   \<and> fetch w_offline ''http://localhost:8000/qr'' [(''Content-Type'', ''application/json'')] ''qr''
       = Throws (Rejected ''ECONNREFUSED'')
   \<and> last (fst (emit toy_lib cfg_open w_offline (QrIssued ''ABC''))) =
       ConsoleError ''No se pudo publicar el QR'' (Rejected ''ECONNREFUSED'')
   \<and> snd (emit toy_lib cfg_open w_offline (QrIssued ''ABC'')) = Returns ()
   \<and> run toy_lib cfg_open [(QrIssued ''ABC'', w_offline), (MessageReceived m_hola, w_500)] =
       (fst (emit toy_lib cfg_open w_offline (QrIssued ''ABC'')) @
        fst (emit toy_lib cfg_open w_500 (MessageReceived m_hola)), Returns ())
   \<and> Fetch ''http://localhost:8000/ingesta'' [(''Content-Type'', ''application/json'')]
        (JSON_stringify toy_lib (payload m_hola c_private (JStr ''Ana'')))
       \<in> set (fst (emit toy_lib cfg_open w_500 (MessageReceived m_hola)))
   \<and> fetch w_500 ''http://localhost:8000/ingesta'' [(''Content-Type'', ''application/json'')]
        (JSON_stringify toy_lib (payload m_hola c_private (JStr ''Ana''))) = Returns 500
   \<and> filter is_ConsoleError (fst (emit toy_lib cfg_open w_500 (MessageReceived m_hola))) = []"
proof -
  have q: "Fetch ''http://localhost:8000/qr'' [(''Content-Type'', ''application/json'')] ''qr''
             \<in> set (fst (emit toy_lib cfg_open w_offline (QrIssued ''ABC'')))
           \<and> fetch w_offline ''http://localhost:8000/qr'' [(''Content-Type'', ''application/json'')] ''qr''
               = Throws (Rejected ''ECONNREFUSED'')"
    by (simp add: eval_defs example_defs)
  have m: "Fetch ''http://localhost:8000/ingesta'' [(''Content-Type'', ''application/json'')]
             (JSON_stringify toy_lib (payload m_hola c_private (JStr ''Ana'')))
             \<in> set (fst (emit toy_lib cfg_open w_500 (MessageReceived m_hola)))
           \<and> fetch w_500 ''http://localhost:8000/ingesta'' [(''Content-Type'', ''application/json'')]
               (JSON_stringify toy_lib (payload m_hola c_private (JStr ''Ana''))) = Returns 500"
    by (simp add: eval_defs example_defs)
  from q m
    delivery_failure_swallowed [of "''http://localhost:8000/qr''"
      "[(''Content-Type'', ''application/json'')]" "''qr''"
      toy_lib cfg_open w_offline "QrIssued ''ABC''" "[(MessageReceived m_hola, w_500)]"
      "Rejected ''ECONNREFUSED''" 200]
    delivery_failure_swallowed [of "''http://localhost:8000/ingesta''"
      "[(''Content-Type'', ''application/json'')]"
      "JSON_stringify toy_lib (payload m_hola c_private (JStr ''Ana''))"
      toy_lib cfg_open w_500 "MessageReceived m_hola" "[]"
      "Rejected ''ECONNREFUSED''" 500]
  show ?thesis
    by (simp add: io_return_def del: run.simps(2))
qed

end
